theory Spec2Isabelle
  imports Main "HOL-Library.Word" "HOL-Library.Sublist"
begin

section \<open>Strings of the host language\<close>

text \<open>
  The program of \<^verbatim>\<open>src/app/page.tsx\<close> is TypeScript: a string is a sequence of
  UTF-16 code units. The Persian literals of the source do not fit in an 8-bit
  \<^typ>\<open>char\<close>, so a string is a list of 16-bit words; \<open>ascii\<close> embeds the ASCII
  literals of the source.
\<close>

type_synonym jschar = "16 word"
type_synonym jsstring = "jschar list"

definition ascii :: "string \<Rightarrow> jsstring" where
  "ascii s = map (\<lambda>c. of_nat (of_char c)) s"

text \<open>The literal U+0633 U+062A U+0648 U+0646 ("column" in Persian), lines 110, 149.\<close>

definition sotoon :: jsstring where
  "sotoon = [0x0633, 0x062A, 0x0648, 0x0646]"

text \<open>The literal U+0646 U+062A U+06CC U+062C U+0647 ("result"), lines 202 and 228.\<close>

definition natijeh :: jsstring where
  "natijeh = [0x0646, 0x062A, 0x06CC, 0x062C, 0x0647]"

text \<open>
  \<^verbatim>\<open>String.prototype.trim\<close> removes the code units of WhiteSpace and LineTerminator
  (ECMAScript 2023, 22.1.3.32) from both ends; all of them are in the basic plane.
\<close>

definition isWhiteSpace :: "jschar \<Rightarrow> bool" where
  "isWhiteSpace c =
     (c = 0x0009 \<or> c = 0x000A \<or> c = 0x000B \<or> c = 0x000C \<or> c = 0x000D \<or> c = 0x0020
      \<or> c = 0x00A0 \<or> c = 0x1680 \<or> (0x2000 \<le> c \<and> c \<le> 0x200A) \<or> c = 0x2028
      \<or> c = 0x2029 \<or> c = 0x202F \<or> c = 0x205F \<or> c = 0x3000 \<or> c = 0xFEFF)"

definition trim :: "jsstring \<Rightarrow> jsstring" where
  "trim s = rev (dropWhile isWhiteSpace (rev (dropWhile isWhiteSpace s)))"

text \<open>
  A template literal \<^verbatim>\<open>${index}\<close> of a non-negative integer index prints its decimal
  digits, most significant first, no leading zero.
\<close>

definition digit :: "nat \<Rightarrow> jschar" where
  "digit d = of_nat (48 + d)"

fun decimal :: "nat \<Rightarrow> jsstring" where
  "decimal n = (if n < 10 then [digit n] else decimal (n div 10) @ [digit (n mod 10)])"

declare decimal.simps [simp del]

definition isDigit :: "jschar \<Rightarrow> bool" where
  "isDigit c = (0x30 \<le> c \<and> c \<le> 0x39)"

text \<open>
  \<^verbatim>\<open>s.endsWith(t)\<close>: the last \<open>length t\<close> code units of \<open>s\<close> are \<open>t\<close>; false when
  \<open>t\<close> is longer than \<open>s\<close>.
\<close>

definition endsWith :: "jsstring \<Rightarrow> jsstring \<Rightarrow> bool" where
  "endsWith s t = (length t \<le> length s \<and> drop (length s - length t) s = t)"

text \<open>\<^verbatim>\<open>s.includes(t)\<close>: \<open>t\<close> occurs in \<open>s\<close> at some position, tried from the left.\<close>

fun includesJS :: "jsstring \<Rightarrow> jsstring \<Rightarrow> bool" where
  "includesJS [] t = (t = [])"
| "includesJS (c # cs) t = (take (length t) (c # cs) = t \<or> includesJS cs t)"

text \<open>
  \<^verbatim>\<open>Array.prototype.at\<close>: a negative index counts from the end; outside the array
  the result is \<^verbatim>\<open>undefined\<close>.
\<close>

definition at :: "'a list \<Rightarrow> int \<Rightarrow> 'a option" where
  "at xs index =
     (let len = int (length xs);
          k = (if 0 \<le> index then index else len + index)
      in if k < 0 \<or> len \<le> k then None else Some (xs ! nat k))"

text \<open>\<^verbatim>\<open>xs[i]\<close> for an array index: \<^verbatim>\<open>undefined\<close> out of range.\<close>

definition elem :: "'a list \<Rightarrow> nat \<Rightarrow> 'a option" where
  "elem xs i = (if i < length xs then Some (xs ! i) else None)"

section \<open>Data model\<close>

text \<open>
  A cell is \<^verbatim>\<open>string | number | boolean | null | undefined\<close> (line 20). The numbers of
  the host are left as a type parameter; how one prints is a function of the host.
\<close>

datatype 'n cell = CString jsstring | CNumber 'n | CBoolean bool | CNull | CUndefined

record 'n RawSheetData =
  name :: jsstring
  headers :: "jsstring list"
  rows :: "'n cell list list"

record 'n AgentState =
  workbookName :: jsstring
  sheets :: "'n RawSheetData list"
  activeSheetIndex :: int
  selectedColumns :: "jsstring \<rightharpoonup> bool"
  columnAliases :: "jsstring \<rightharpoonup> jsstring"
  searchTerm :: jsstring

text \<open>
  The functions of the host that the source calls and does not define:
  \<^verbatim>\<open>String(n)\<close> on a number, \<^verbatim>\<open>toLocaleLowerCase("fa")\<close>, \<^verbatim>\<open>normalize("NFKD")\<close>.
\<close>

record 'n host =
  numberToString :: "'n \<Rightarrow> jsstring"
  toLocaleLowerCase :: "jsstring \<Rightarrow> jsstring"
  normalizeNFKD :: "jsstring \<Rightarrow> jsstring"

section \<open>Helpers (lines 109 to 115)\<close>

text \<open>
  \<^verbatim>\<open>header?.trim() ? `${header.trim()}::${index}` : `<sotoon>-${index + 1}`\<close>.
  The header may be \<^verbatim>\<open>undefined\<close> (\<open>None\<close>); the empty string is falsy.
\<close>

definition buildColumnKey :: "jsstring option \<Rightarrow> nat \<Rightarrow> jsstring" where
  "buildColumnKey header index =
     (case header of
        None \<Rightarrow> sotoon @ ascii ''-'' @ decimal (index + 1)
      | Some h \<Rightarrow>
          if trim h \<noteq> [] then trim h @ ascii ''::'' @ decimal index
          else sotoon @ ascii ''-'' @ decimal (index + 1))"

text \<open>\<^verbatim>\<open>String(value ?? "")\<close>.\<close>

definition toStringJS :: "'n host \<Rightarrow> 'n cell \<Rightarrow> jsstring" where
  "toStringJS h v =
     (case v of
        CNull \<Rightarrow> []
      | CUndefined \<Rightarrow> []
      | CString s \<Rightarrow> s
      | CNumber n \<Rightarrow> numberToString h n
      | CBoolean b \<Rightarrow> (if b then ascii ''true'' else ascii ''false''))"

definition normalizeForSearch :: "'n host \<Rightarrow> 'n cell \<Rightarrow> jsstring" where
  "normalizeForSearch h v = normalizeNFKD h (toLocaleLowerCase h (toStringJS h v))"

section \<open>The store (lines 41 to 107)\<close>

text \<open>
  \<^verbatim>\<open>headers.forEach((header, idx) => { initialSelectedColumns[buildColumnKey(header, idx)] = true })\<close>,
  the loop of \<open>setWorkbook\<close> and of \<open>setActiveSheetIndex\<close>, from position \<open>idx\<close> on.
\<close>

fun forEachSelect :: "jsstring list \<Rightarrow> nat \<Rightarrow> (jsstring \<rightharpoonup> bool) \<Rightarrow> (jsstring \<rightharpoonup> bool)" where
  "forEachSelect [] idx m = m"
| "forEachSelect (header # rest) idx m =
     forEachSelect rest (Suc idx) (m(buildColumnKey (Some header) idx \<mapsto> True))"

definition initialSelectedColumns :: "jsstring list \<Rightarrow> (jsstring \<rightharpoonup> bool)" where
  "initialSelectedColumns hs = forEachSelect hs 0 Map.empty"

text \<open>
  \<open>setWorkbook\<close>: the headers are those of \<^verbatim>\<open>sheets.at(0)\<close>, or none without a sheet.
  (\<^verbatim>\<open>headers\<close> is not optional in \<open>RawSheetData\<close>, so the source's second
  alternative, the first row as strings, is never taken.)
\<close>

definition setWorkbook :: "jsstring \<Rightarrow> 'n RawSheetData list \<Rightarrow> 'n AgentState \<Rightarrow> 'n AgentState" where
  "setWorkbook wbName shs s =
     (let hs = (case at shs 0 of None \<Rightarrow> [] | Some sh \<Rightarrow> headers sh)
      in s\<lparr>workbookName := wbName, sheets := shs, activeSheetIndex := 0,
            selectedColumns := initialSelectedColumns hs,
            columnAliases := Map.empty, searchTerm := []\<rparr>)"

definition setActiveSheetIndex :: "int \<Rightarrow> 'n AgentState \<Rightarrow> 'n AgentState" where
  "setActiveSheetIndex index s =
     (case at (sheets s) index of
        None \<Rightarrow> s
      | Some sheet \<Rightarrow>
          s\<lparr>activeSheetIndex := index,
            selectedColumns := initialSelectedColumns (headers sheet),
            columnAliases := Map.empty, searchTerm := []\<rparr>)"

text \<open>
  Reading \<^verbatim>\<open>selectedColumns[key]\<close> in a boolean position: a missing key is
  \<^verbatim>\<open>undefined\<close>, which is falsy.
\<close>

definition isSelected :: "(jsstring \<rightharpoonup> bool) \<Rightarrow> jsstring \<Rightarrow> bool" where
  "isSelected m key = (case m key of None \<Rightarrow> False | Some b \<Rightarrow> b)"

definition toggleColumn :: "jsstring \<Rightarrow> 'n AgentState \<Rightarrow> 'n AgentState" where
  "toggleColumn columnKey s =
     s\<lparr>selectedColumns := (selectedColumns s)(columnKey \<mapsto> \<not> isSelected (selectedColumns s) columnKey)\<rparr>"

definition setColumnAlias :: "jsstring \<Rightarrow> jsstring \<Rightarrow> 'n AgentState \<Rightarrow> 'n AgentState" where
  "setColumnAlias columnKey alias s =
     s\<lparr>columnAliases := (columnAliases s)(columnKey \<mapsto> alias)\<rparr>"

definition setSearchTerm :: "jsstring \<Rightarrow> 'n AgentState \<Rightarrow> 'n AgentState" where
  "setSearchTerm term s = s\<lparr>searchTerm := term\<rparr>"

definition reset :: "'n AgentState \<Rightarrow> 'n AgentState" where
  "reset s = s\<lparr>workbookName := [], sheets := [], activeSheetIndex := 0,
               selectedColumns := Map.empty, columnAliases := Map.empty, searchTerm := []\<rparr>"

definition initialState :: "'n AgentState" where
  "initialState = \<lparr>workbookName = [], sheets = [], activeSheetIndex = 0,
                    selectedColumns = Map.empty, columnAliases = Map.empty, searchTerm = []\<rparr>"

section \<open>The view projection (lines 117 to 173)\<close>

definition activeSheet :: "'n AgentState \<Rightarrow> 'n RawSheetData option" where
  "activeSheet s = at (sheets s) (activeSheetIndex s)"

definition visibleRows :: "'n host \<Rightarrow> 'n AgentState \<Rightarrow> 'n cell list list" where
  "visibleRows h s =
     (case activeSheet s of
        None \<Rightarrow> []
      | Some sheet \<Rightarrow>
          if trim (searchTerm s) = [] then rows sheet
          else
            let searchValue = normalizeForSearch h (CString (searchTerm s))
            in filter (\<lambda>row. list_ex (\<lambda>c. includesJS (normalizeForSearch h c) searchValue) row)
                 (rows sheet))"

definition activeHeaders :: "'n AgentState \<Rightarrow> jsstring list" where
  "activeHeaders s = (case activeSheet s of None \<Rightarrow> [] | Some sheet \<Rightarrow> headers sheet)"

text \<open>\<^verbatim>\<open>headers.map(buildColumnKey)\<close>: the callback gets the element and its index.\<close>

definition columnKeys :: "jsstring list \<Rightarrow> jsstring list" where
  "columnKeys hs = map (\<lambda>(header, idx). buildColumnKey (Some header) idx) (zip hs [0..<length hs])"

definition selectedColumnIndices :: "(jsstring \<rightharpoonup> bool) \<Rightarrow> jsstring list \<Rightarrow> nat list" where
  "selectedColumnIndices sel keys =
     map snd (filter (\<lambda>(key, idx). isSelected sel key) (zip keys [0..<length keys]))"

text \<open>
  \<^verbatim>\<open>store.columnAliases[key]?.trim() || headers[idx] || `<sotoon> ${idx + 1}`\<close>, with
  \<^verbatim>\<open>key = columnKeys[idx]\<close>; an \<^verbatim>\<open>undefined\<close> key would read the property "undefined".
\<close>

definition headerCell :: "(jsstring \<rightharpoonup> jsstring) \<Rightarrow> jsstring list \<Rightarrow> jsstring list \<Rightarrow> nat \<Rightarrow> jsstring" where
  "headerCell aliases hs keys idx =
     (let key = (case elem keys idx of None \<Rightarrow> ascii ''undefined'' | Some k \<Rightarrow> k);
          fallback = (case elem hs idx of
                        None \<Rightarrow> sotoon @ ascii '' '' @ decimal (idx + 1)
                      | Some t \<Rightarrow> if t \<noteq> [] then t else sotoon @ ascii '' '' @ decimal (idx + 1))
      in case aliases key of
           None \<Rightarrow> fallback
         | Some a \<Rightarrow> if trim a \<noteq> [] then trim a else fallback)"

text \<open>\<^verbatim>\<open>row[idx] ?? ""\<close>.\<close>

definition cellOrEmpty :: "'n cell list \<Rightarrow> nat \<Rightarrow> 'n cell" where
  "cellOrEmpty row idx =
     (case elem row idx of
        None \<Rightarrow> CString []
      | Some CNull \<Rightarrow> CString []
      | Some CUndefined \<Rightarrow> CString []
      | Some c \<Rightarrow> c)"

definition rowsForExport :: "'n host \<Rightarrow> 'n AgentState \<Rightarrow> 'n cell list list" where
  "rowsForExport h s =
     (case activeSheet s of
        None \<Rightarrow> []
      | Some sheet \<Rightarrow>
          let hs = activeHeaders s;
              keys = columnKeys hs;
              indices = selectedColumnIndices (selectedColumns s) keys
          in if indices = [] then []
             else
               let headerRow = map (\<lambda>idx. CString (headerCell (columnAliases s) hs keys idx)) indices;
                   dataRows = map (\<lambda>row. map (cellOrEmpty row) indices) (visibleRows h s)
               in headerRow # dataRows)"

section \<open>Export (lines 196 to 204 and 251 to 268)\<close>

text \<open>
  What \<open>downloadWorkbook\<close> hands to the workbook library: the rows, the fixed sheet
  label and the file name.
\<close>

record 'n writerCall =
  wcRows :: "'n cell list list"
  wcSheetName :: jsstring
  wcFilename :: jsstring

definition downloadWorkbook :: "'n cell list list \<Rightarrow> jsstring \<Rightarrow> 'n writerCall" where
  "downloadWorkbook rs filename =
     \<lparr>wcRows = rs, wcSheetName = natijeh,
      wcFilename = (if endsWith filename (ascii ''.xlsx'') then filename
                    else filename @ ascii ''.xlsx'')\<rparr>"

text \<open>
  The three messages of the component, named for their literals: the file could not be
  read (line 245), no column is selected for output or there is no data to save
  (line 254), saving the file failed (line 264).
\<close>

datatype message = ReadFailed | NothingToExport | WriteFailed

record uiState =
  isExporting :: bool
  error :: "message option"

text \<open>
  \<open>handleExport\<close>: the new state of the component and the calls made to the workbook
  library. \<open>writes\<close> tells whether the library returns (\<open>True\<close>) or throws.
\<close>

definition handleExport ::
  "('n writerCall \<Rightarrow> bool) \<Rightarrow> 'n cell list list \<Rightarrow> jsstring \<Rightarrow> uiState \<Rightarrow> uiState \<times> 'n writerCall list" where
  "handleExport writes rowsToExport exportFilename ui =
     (if rowsToExport = [] then (ui\<lparr>error := Some NothingToExport\<rparr>, [])
      else
        let call = downloadWorkbook rowsToExport exportFilename
        in if writes call then (ui\<lparr>isExporting := False, error := None\<rparr>, [call])
           else (ui\<lparr>isExporting := False, error := Some WriteFailed\<rparr>, [call]))"

section \<open>Loading a file (lines 175 to 194 and 232 to 249)\<close>

text \<open>
  \<open>readWorkbookFile\<close>, from what the workbook library returns: for each sheet its name
  and its rows of cells (\<^verbatim>\<open>sheet_to_json\<close> with \<^verbatim>\<open>header: 1\<close>). The first row is
  shifted off and gives the headers:
  \<^verbatim>\<open>String(cell ?? "").trim() || `<sotoon> ${idx + 1}`\<close>; the other rows are the rows.
\<close>

definition headerOfCell :: "'n host \<Rightarrow> 'n cell \<Rightarrow> nat \<Rightarrow> jsstring" where
  "headerOfCell h c idx =
     (let v = trim (toStringJS h c)
      in if v \<noteq> [] then v else sotoon @ ascii '' '' @ decimal (idx + 1))"

definition parseSheet :: "'n host \<Rightarrow> jsstring \<times> 'n cell list list \<Rightarrow> 'n RawSheetData" where
  "parseSheet h sheet =
     (let first = (case snd sheet of [] \<Rightarrow> [] | r # rest \<Rightarrow> r);
          others = (case snd sheet of [] \<Rightarrow> [] | r # rest \<Rightarrow> rest)
      in \<lparr>name = fst sheet,
          headers = map (\<lambda>(c, idx). headerOfCell h c idx) (zip first [0..<length first]),
          rows = others\<rparr>)"

definition readWorkbookFile :: "'n host \<Rightarrow> (jsstring \<times> 'n cell list list) list \<Rightarrow> 'n RawSheetData list" where
  "readWorkbookFile h wb = map (parseSheet h) wb"

text \<open>
  \<open>handleFileChange\<close> for a chosen file: \<open>parsed\<close> is what the library read, or \<open>None\<close>
  when reading throws; then the store is left as it is and the message is set.
\<close>

definition handleFileChange ::
  "'n host \<Rightarrow> jsstring \<Rightarrow> (jsstring \<times> 'n cell list list) list option
     \<Rightarrow> 'n AgentState \<times> uiState \<Rightarrow> 'n AgentState \<times> uiState" where
  "handleFileChange h fileName parsed st =
     (case parsed of
        None \<Rightarrow> (fst st, (snd st)\<lparr>error := Some ReadFailed\<rparr>)
      | Some wb \<Rightarrow> (setWorkbook fileName (readWorkbookFile h wb) (fst st), (snd st)\<lparr>error := None\<rparr>))"

section \<open>Example data\<close>

text \<open>
  A host for the examples: integers print in decimal, lower-casing maps the ASCII capitals
  to small letters and normalisation leaves ASCII text alone, as the real host does on
  ASCII text. \<open>exampleSheet\<close> is a sheet handed to the store as it is, with a blank
  header.
\<close>

definition asciiLower :: "jschar \<Rightarrow> jschar" where
  "asciiLower c = (if 0x41 \<le> c \<and> c \<le> 0x5A then c + 0x20 else c)"

definition exampleHost :: "int host" where
  "exampleHost =
     \<lparr>numberToString = (\<lambda>n. if n < 0 then ascii ''-'' @ decimal (nat (- n)) else decimal (nat n)),
      toLocaleLowerCase = map asciiLower,
      normalizeNFKD = (\<lambda>s. s)\<rparr>"

definition exampleSheet :: "int RawSheetData" where
  "exampleSheet =
     \<lparr>name = ascii ''Sheet1'',
      headers = [ascii ''Name'', []],
      rows = [[CString (ascii ''Ali''), CNumber 5], [CString (ascii ''Reza''), CNumber 7]]\<rparr>"

definition exampleState :: "int AgentState" where
  "exampleState = setWorkbook (ascii ''book.xlsx'') [exampleSheet] initialState"

definition twoSheets :: "int AgentState" where
  "twoSheets =
     setWorkbook (ascii ''book.xlsx'')
       [exampleSheet, \<lparr>name = ascii ''Sheet2'', headers = [ascii ''City''], rows = [[CString (ascii ''Qom'')]]\<rparr>]
       initialState"

definition customised :: "int AgentState" where
  "customised =
     setSearchTerm (ascii ''ali'')
       (setColumnAlias (ascii ''Name::0'') (ascii ''Who'') (toggleColumn (ascii ''Name::0'') twoSheets))"

definition narrowed :: "int AgentState" where
  "narrowed =
     setSearchTerm (ascii ''ali'')
       (setColumnAlias (ascii ''Name::0'') (ascii ''  '')
          (toggleColumn (sotoon @ ascii ''-2'') exampleState))"

definition noMatch :: "int AgentState" where
  "noMatch = setSearchTerm (ascii ''zzz'') exampleState"

definition headerOnlySheet :: "int RawSheetData" where
  "headerOnlySheet = \<lparr>name = ascii ''Sheet1'', headers = [ascii ''Name''], rows = []\<rparr>"

definition headerOnly :: "int AgentState" where
  "headerOnly = setWorkbook (ascii ''book.xlsx'') [headerOnlySheet] initialState"

text \<open>
  The file of the scenario: a sheet whose first row is \<open>Name\<close> and a blank cell, then the
  two rows; and the state after loading it.
\<close>

definition exampleFile :: "(jsstring \<times> int cell list list) list" where
  "exampleFile =
     [(ascii ''Sheet1'',
       [[CString (ascii ''Name''), CString []],
        [CString (ascii ''Ali''), CNumber 5],
        [CString (ascii ''Reza''), CNumber 7]])]"

definition loadedExample :: "int host \<Rightarrow> int AgentState" where
  "loadedExample h =
     fst (handleFileChange h (ascii ''book.xlsx'') (Some exampleFile)
           (initialState, \<lparr>isExporting = False, error = None\<rparr>))"

definition noneSelected :: "int AgentState" where
  "noneSelected = toggleColumn (sotoon @ ascii ''-2'') (toggleColumn (ascii ''Name::0'') exampleState)"

section \<open>The export matrix in the words of the specification\<close>

text \<open>
  Selected Column Indices: the positions, 0-based and in header order, whose column key
  maps to true in the Selection Map; an absent key is excluded.
\<close>

definition specSelectedIndices :: "(jsstring \<rightharpoonup> bool) \<Rightarrow> jsstring list \<Rightarrow> nat list" where
  "specSelectedIndices sel hs =
     filter (\<lambda>i. sel (columnKeys hs ! i) = Some True) [0..<length hs]"

text \<open>
  A header entry: the trimmed alias if it is not empty after trimming, else the original
  header text if it is not empty, else the placeholder with the 1-based position.
\<close>

definition specHeaderEntry :: "(jsstring \<rightharpoonup> jsstring) \<Rightarrow> jsstring list \<Rightarrow> nat \<Rightarrow> jsstring" where
  "specHeaderEntry aliases hs i =
     (let original = (if hs ! i \<noteq> [] then hs ! i else sotoon @ ascii '' '' @ decimal (i + 1))
      in case aliases (columnKeys hs ! i) of
           None \<Rightarrow> original
         | Some a \<Rightarrow> if trim a \<noteq> [] then trim a else original)"

text \<open>A data entry: the cell of the row at the position, or the empty string if absent.\<close>

definition specDataEntry :: "'n cell list \<Rightarrow> nat \<Rightarrow> 'n cell" where
  "specDataEntry row i =
     (if i < length row \<and> row ! i \<noteq> CNull \<and> row ! i \<noteq> CUndefined then row ! i else CString [])"

section \<open>Reading a decimal numeral back\<close>

text \<open>The value of a digit and of a digit string, the inverse of \<open>decimal\<close>.\<close>

definition digitVal :: "jschar \<Rightarrow> nat" where
  "digitVal c = unat c - 48"

definition decimalVal :: "jsstring \<Rightarrow> nat" where
  "decimalVal cs = foldl (\<lambda>acc c. 10 * acc + digitVal c) 0 cs"

section \<open>Decimal numerals\<close>

lemma unat_digit: "d < 10 \<Longrightarrow> unat (digit d) = 48 + d"
  unfolding digit_def by (simp only: unat_of_nat) simp

lemma digit_isDigit: "d < 10 \<Longrightarrow> isDigit (digit d)"
  by (simp add: isDigit_def word_le_nat_alt unat_digit)

lemma digitVal_digit: "d < 10 \<Longrightarrow> digitVal (digit d) = d"
  by (simp add: digitVal_def unat_digit)

lemma decimalVal_snoc: "decimalVal (cs @ [c]) = 10 * decimalVal cs + digitVal c"
  by (simp add: decimalVal_def)

lemma decimalVal_decimal: "decimalVal (decimal n) = n"
proof (induction n rule: decimal.induct)
  case (1 n)
  show ?case
  proof (cases "n < 10")
    case True
    then show ?thesis
      by (simp add: decimal.simps [of n] decimalVal_def digitVal_digit)
  next
    case False
    with 1 have "decimalVal (decimal (n div 10)) = n div 10" by simp
    with False show ?thesis
      by (simp add: decimal.simps [of n] decimalVal_snoc digitVal_digit)
  qed
qed

lemma decimal_inj: "decimal m = decimal n \<Longrightarrow> m = n"
  by (metis decimalVal_decimal)

lemma decimal_digits: "list_all isDigit (decimal n)"
proof (induction n rule: decimal.induct)
  case (1 n)
  show ?case
  proof (cases "n < 10")
    case True
    then show ?thesis by (simp add: decimal.simps [of n] digit_isDigit)
  next
    case False
    with 1 have "list_all isDigit (decimal (n div 10))" by simp
    with False show ?thesis
      by (simp add: decimal.simps [of n] digit_isDigit)
  qed
qed

lemma ascii_simps:
  "ascii ''-'' = [0x2D]" "ascii ''::'' = [0x3A, 0x3A]" "ascii '' '' = [0x20]"
  "ascii ''.xlsx'' = [0x2E, 0x78, 0x6C, 0x73, 0x78]"
  by (simp_all add: ascii_def)

lemma not_digit_sep: "\<not> isDigit 0x2D" "\<not> isDigit 0x3A"
  by (simp_all add: isDigit_def)

section \<open>Column keys are pairwise distinct\<close>

lemma digits_tail:
  assumes "list_all isDigit ds" and "\<not> isDigit sep"
  shows "takeWhile isDigit (rev (pre @ sep # ds)) = rev ds"
    and "dropWhile isDigit (rev (pre @ sep # ds)) = sep # rev pre"
proof -
  have digits: "\<And>x. x \<in> set (rev ds) \<Longrightarrow> isDigit x"
    using assms(1) by (simp add: list_all_iff)
  have shape: "rev (pre @ sep # ds) = rev ds @ sep # rev pre"
    by simp
  have "takeWhile isDigit (rev ds @ sep # rev pre) = rev ds @ takeWhile isDigit (sep # rev pre)"
    using digits by (rule takeWhile_append2)
  with assms(2) show "takeWhile isDigit (rev (pre @ sep # ds)) = rev ds"
    by (simp only: shape takeWhile.simps if_False append_Nil2)
  have "dropWhile isDigit (rev ds @ sep # rev pre) = dropWhile isDigit (sep # rev pre)"
    using digits by (rule dropWhile_append2)
  with assms(2) show "dropWhile isDigit (rev (pre @ sep # ds)) = sep # rev pre"
    by (simp only: shape dropWhile.simps if_False)
qed

lemma key_named:
  "trim h \<noteq> [] \<Longrightarrow> buildColumnKey (Some h) i = (trim h @ [0x3A]) @ 0x3A # decimal i"
  by (simp add: buildColumnKey_def ascii_simps)

lemma key_unnamed:
  "trim h = [] \<Longrightarrow> buildColumnKey (Some h) i = sotoon @ 0x2D # decimal (i + 1)"
  by (simp add: buildColumnKey_def ascii_simps)

lemma key_digits:
  "takeWhile isDigit (rev (buildColumnKey (Some h) i)) =
     rev (decimal (if trim h \<noteq> [] then i else i + 1))"
  by (cases "trim h = []")
     (simp_all add: key_named key_unnamed digits_tail(1) [OF decimal_digits] not_digit_sep
        del: rev_append append_assoc)

lemma key_separator:
  "hd (dropWhile isDigit (rev (buildColumnKey (Some h) i))) = (if trim h \<noteq> [] then 0x3A else 0x2D)"
  by (cases "trim h = []")
     (simp_all add: key_named key_unnamed digits_tail(2) [OF decimal_digits] not_digit_sep
        del: rev_append append_assoc)

lemma buildColumnKey_index_inj:
  assumes "buildColumnKey (Some h) i = buildColumnKey (Some h') j"
  shows "i = j"
proof -
  have sep: "(trim h \<noteq> []) = (trim h' \<noteq> [])"
    using key_separator [of h i] key_separator [of h' j] assms
    by (auto split: if_splits)
  have "decimal (if trim h \<noteq> [] then i else i + 1) = decimal (if trim h' \<noteq> [] then j else j + 1)"
    using key_digits [of h i] key_digits [of h' j] assms by simp
  then have "(if trim h \<noteq> [] then i else i + 1) = (if trim h' \<noteq> [] then j else j + 1)"
    by (rule decimal_inj)
  with sep show ?thesis by (auto split: if_splits)
qed

lemma length_columnKeys: "length (columnKeys hs) = length hs"
  by (simp add: columnKeys_def)

lemma nth_columnKeys:
  "i < length hs \<Longrightarrow> columnKeys hs ! i = buildColumnKey (Some (hs ! i)) i"
  by (simp add: columnKeys_def)

lemma distinct_columnKeys: "distinct (columnKeys hs)"
  unfolding distinct_conv_nth length_columnKeys
  using buildColumnKey_index_inj by (auto simp: nth_columnKeys)

text \<open>
  C6. For every sequence of header strings, the column keys computed by
  \<open>buildColumnKey\<close> over the headers in positional order are pairwise distinct (and there
  is one key per header): no two positions yield the same key, whether their headers are
  empty after trimming or not.
\<close>

theorem columnKeys_pairwise_distinct:
  "distinct (columnKeys hs) \<and> length (columnKeys hs) = length hs"
  by (simp add: distinct_columnKeys length_columnKeys)

theorem columnKeys_pairwise_distinct_witness:
  "distinct (columnKeys [ascii ''Name'', [], ascii '' Name '', []])
   \<and> length (columnKeys [ascii ''Name'', [], ascii '' Name '', []]) = 4"
  using columnKeys_pairwise_distinct [of "[ascii ''Name'', [], ascii '' Name '', []]"]
  by simp

section \<open>Facts about the library functions and the loops\<close>

lemma includesJS_iff: "includesJS s t \<longleftrightarrow> (\<exists>p q. s = p @ t @ q)"
proof (induction s)
  case Nil
  then show ?case by auto
next
  case (Cons c cs)
  show ?case
  proof
    assume "includesJS (c # cs) t"
    then consider "take (length t) (c # cs) = t" | "includesJS cs t" by auto
    then show "\<exists>p q. c # cs = p @ t @ q"
    proof cases
      case 1
      then have "c # cs = [] @ t @ drop (length t) (c # cs)"
        by (metis append_Nil append_take_drop_id)
      then show ?thesis by blast
    next
      case 2
      with Cons.IH obtain p q where "cs = p @ t @ q" by blast
      then have "c # cs = (c # p) @ t @ q" by simp
      then show ?thesis by blast
    qed
  next
    assume "\<exists>p q. c # cs = p @ t @ q"
    then obtain p q where pq: "c # cs = p @ t @ q" by blast
    show "includesJS (c # cs) t"
    proof (cases p)
      case Nil
      with pq have "take (length t) (c # cs) = t" by simp
      then show ?thesis by simp
    next
      case (Cons a p')
      with pq have "cs = p' @ t @ q" by simp
      with Cons.IH have "includesJS cs t" by blast
      then show ?thesis by simp
    qed
  qed
qed

lemma endsWith_iff: "endsWith s t \<longleftrightarrow> (\<exists>p. s = p @ t)"
proof
  assume "endsWith s t"
  then have "s = take (length s - length t) s @ t"
    by (metis endsWith_def append_take_drop_id)
  then show "\<exists>p. s = p @ t" ..
next
  assume "\<exists>p. s = p @ t"
  then show "endsWith s t" by (auto simp: endsWith_def)
qed

lemma forEachSelect_lookup:
  "forEachSelect hs idx m k =
     (if k \<in> set (map (\<lambda>(header, i). buildColumnKey (Some header) i) (zip hs [idx..<idx + length hs]))
      then Some True else m k)"
proof (induction hs arbitrary: idx m)
  case Nil
  then show ?case by simp
next
  case (Cons header rest)
  have "[idx..<idx + length (header # rest)] = idx # [Suc idx..<Suc idx + length rest]"
    by (subst upt_rec) simp
  then show ?case
    by (simp only: forEachSelect.simps Cons.IH zip_Cons_Cons list.map prod.case list.set
          length_Cons) auto
qed

lemma initialSelectedColumns_lookup:
  "initialSelectedColumns hs k = (if k \<in> set (columnKeys hs) then Some True else None)"
  by (simp add: initialSelectedColumns_def forEachSelect_lookup columnKeys_def)

lemma selectedColumnIndices_filter:
  "selectedColumnIndices sel keys = filter (\<lambda>i. isSelected sel (keys ! i)) [0..<length keys]"
proof -
  have "zip keys [0..<length keys] = map (\<lambda>i. (keys ! i, i)) [0..<length keys]"
    by (rule nth_equalityI) simp_all
  then show ?thesis
    by (simp add: selectedColumnIndices_def filter_map comp_def)
qed

lemma at_None_iff: "at xs i = None \<longleftrightarrow> (i < - int (length xs) \<or> int (length xs) \<le> i)"
  by (auto simp: at_def Let_def)

lemma at_in_range: "0 \<le> j \<Longrightarrow> j < int (length xs) \<Longrightarrow> at xs j = Some (xs ! nat j)"
  by (simp add: at_def Let_def)

lemma setActiveSheetIndex_in_range:
  assumes "0 \<le> j" and "j < int (length (sheets s))"
  shows "setActiveSheetIndex j s =
           s\<lparr>activeSheetIndex := j,
             selectedColumns := initialSelectedColumns (headers (sheets s ! nat j)),
             columnAliases := Map.empty, searchTerm := []\<rparr>"
  using assms by (simp add: setActiveSheetIndex_def at_in_range)

lemma initialSelectedColumns_eq:
  "initialSelectedColumns hs = (\<lambda>k. if k \<in> set (columnKeys hs) then Some True else None)"
  by (rule ext) (rule initialSelectedColumns_lookup)

lemma setActiveSheetIndex_twice:
  assumes "0 \<le> j" and "j < int (length (sheets s))"
    and "0 \<le> i" and "i < int (length (sheets s))"
  shows "setActiveSheetIndex j (setActiveSheetIndex i s) = setActiveSheetIndex j s"
proof -
  have "sheets (setActiveSheetIndex i s) = sheets s"
    using assms(3,4) by (simp add: setActiveSheetIndex_in_range)
  then show ?thesis
    using assms by (simp add: setActiveSheetIndex_in_range [of j])
       (simp add: setActiveSheetIndex_in_range [of i])
qed

lemma sheets_customised:
  "sheets customised =
     [exampleSheet, \<lparr>name = ascii ''Sheet2'', headers = [ascii ''City''], rows = [[CString (ascii ''Qom'')]]\<rparr>]"
  by (simp add: customised_def twoSheets_def setSearchTerm_def setColumnAlias_def toggleColumn_def
        setWorkbook_def Let_def)

lemma list_ex_includesJS:
  "list_ex (\<lambda>c. includesJS (f c) t) = (\<lambda>row. \<exists>c\<in>set row. \<exists>p q. f c = p @ t @ q)"
  by (rule ext) (simp add: list_ex_iff includesJS_iff)

lemma activeSheet_exampleState: "activeSheet (setSearchTerm t exampleState) = Some exampleSheet"
  by (simp add: activeSheet_def setSearchTerm_def exampleState_def setWorkbook_def Let_def at_def)

section \<open>The store\<close>

text \<open>
  C7. For every state and every column key \<open>k\<close>, also one that is absent from the
  Selection Map (it reads as unselected), two calls of \<open>toggleColumn k\<close> in succession
  restore what every key \<open>k'\<close> reads as: \<open>k\<close> is selected afterwards exactly if it was
  before, and no other key's reading changes. One call flips the reading of \<open>k\<close>.
\<close>

theorem toggleColumn_twice_restores:
  "isSelected (selectedColumns (toggleColumn k (toggleColumn k s))) k' = isSelected (selectedColumns s) k'
   \<and> isSelected (selectedColumns (toggleColumn k s)) k = (\<not> isSelected (selectedColumns s) k)"
  by (simp add: toggleColumn_def isSelected_def)

theorem toggleColumn_twice_restores_witness:
  "\<not> isSelected (selectedColumns (initialState :: int AgentState)) (ascii ''Name::0'')
   \<and> isSelected (selectedColumns (toggleColumn (ascii ''Name::0'') (initialState :: int AgentState))) (ascii ''Name::0'')
   \<and> \<not> isSelected (selectedColumns (toggleColumn (ascii ''Name::0'')
          (toggleColumn (ascii ''Name::0'') (initialState :: int AgentState)))) (ascii ''Name::0'')"
  using toggleColumn_twice_restores [of "ascii ''Name::0''" "initialState :: int AgentState" "ascii ''Name::0''"]
  by (simp add: initialState_def isSelected_def)
text \<open>
  C5, as stated, fails: \<open>Array.prototype.at\<close> counts a negative index from the end, so
  with two sheets loaded \<open>setActiveSheetIndex (-1)\<close> finds the last sheet, stores the
  index \<open>-1\<close> and clears the search term.
\<close>

theorem setActiveSheetIndex_negative_counterexample:
  "(-1::int) < 0
   \<and> activeSheetIndex customised = 0
   \<and> searchTerm customised = ascii ''ali''
   \<and> activeSheetIndex (setActiveSheetIndex (-1) customised) = -1
   \<and> searchTerm (setActiveSheetIndex (-1) customised) = []
   \<and> setActiveSheetIndex (-1) customised \<noteq> customised"
proof -
  have a: "activeSheetIndex customised = 0" "searchTerm customised = ascii ''ali''"
    by (simp_all add: customised_def twoSheets_def setSearchTerm_def setColumnAlias_def
          toggleColumn_def setWorkbook_def Let_def)
  have b: "activeSheetIndex (setActiveSheetIndex (-1) customised) = -1"
    "searchTerm (setActiveSheetIndex (-1) customised) = []"
    by (simp_all add: setActiveSheetIndex_def sheets_customised at_def)
  from a b have "setActiveSheetIndex (-1) customised \<noteq> customised"
    by (metis zero_neq_neg_one)
  with a b show ?thesis by simp
qed

text \<open>
  C5, amended. For every state and every index for which \<open>sheets.at(index)\<close> finds no
  sheet, that is every index at or above the number of sheets and every index below minus
  the number of sheets, \<open>setActiveSheetIndex index\<close> leaves the whole state unchanged.
\<close>

theorem setActiveSheetIndex_out_of_range:
  assumes "index < - int (length (sheets s)) \<or> int (length (sheets s)) \<le> index"
  shows "setActiveSheetIndex index s = s"
  using assms by (simp add: setActiveSheetIndex_def at_None_iff [THEN iffD2])

theorem setActiveSheetIndex_out_of_range_witness:
  "int (length (sheets exampleState)) \<le> 1 \<and> setActiveSheetIndex 1 exampleState = exampleState
   \<and> -2 < - int (length (sheets exampleState)) \<and> setActiveSheetIndex (-2) exampleState = exampleState"
proof -
  have a: "sheets exampleState = [exampleSheet]"
    by (simp add: exampleState_def setWorkbook_def Let_def)
  show ?thesis
    using setActiveSheetIndex_out_of_range [of 1 exampleState]
      setActiveSheetIndex_out_of_range [of "-2" exampleState]
    by (simp add: a)
qed
text \<open>
  C3. For every state and every in-range index \<open>j\<close>, \<open>setActiveSheetIndex j\<close> makes
  \<open>j\<close> the active index, keeps the sheets, rebuilds the Selection Map to hold exactly the
  column keys of sheet \<open>j\<close>, each mapped to true, empties the Alias Map and the search
  term. Switching to an in-range sheet \<open>i\<close> first and then to \<open>j\<close> gives the same state
  as switching to \<open>j\<close> at once: no customisation survives.
\<close>

theorem setActiveSheetIndex_resets_view:
  assumes "0 \<le> j" and "j < int (length (sheets s))"
  shows "activeSheetIndex (setActiveSheetIndex j s) = j
       \<and> sheets (setActiveSheetIndex j s) = sheets s
       \<and> selectedColumns (setActiveSheetIndex j s) =
           (\<lambda>k. if k \<in> set (columnKeys (headers (sheets s ! nat j))) then Some True else None)
       \<and> columnAliases (setActiveSheetIndex j s) = Map.empty
       \<and> searchTerm (setActiveSheetIndex j s) = []
       \<and> (0 \<le> i \<and> i < int (length (sheets s)) \<longrightarrow>
            setActiveSheetIndex j (setActiveSheetIndex i s) = setActiveSheetIndex j s)"
  using assms setActiveSheetIndex_twice [of j s i]
  by (simp add: setActiveSheetIndex_in_range initialSelectedColumns_eq)

theorem setActiveSheetIndex_resets_view_witness:
  "\<not> isSelected (selectedColumns customised) (ascii ''Name::0'')
   \<and> columnAliases customised (ascii ''Name::0'') = Some (ascii ''Who'')
   \<and> searchTerm customised = ascii ''ali''
   \<and> isSelected (selectedColumns (setActiveSheetIndex 0 (setActiveSheetIndex 1 customised))) (ascii ''Name::0'')
   \<and> columnAliases (setActiveSheetIndex 0 (setActiveSheetIndex 1 customised)) = Map.empty
   \<and> searchTerm (setActiveSheetIndex 0 (setActiveSheetIndex 1 customised)) = []"
proof -
  have pre: "\<not> isSelected (selectedColumns customised) (ascii ''Name::0'')"
    "columnAliases customised (ascii ''Name::0'') = Some (ascii ''Who'')"
    "searchTerm customised = ascii ''ali''"
    by (simp_all add: customised_def twoSheets_def setSearchTerm_def setColumnAlias_def
          toggleColumn_def setWorkbook_def Let_def isSelected_def at_def exampleSheet_def
          initialSelectedColumns_def buildColumnKey_def trim_def ascii_def isWhiteSpace_def
          decimal.simps digit_def)
  have key: "ascii ''Name::0'' \<in> set (columnKeys (headers (sheets customised ! nat 0)))"
    by (simp add: sheets_customised exampleSheet_def columnKeys_def buildColumnKey_def trim_def
          ascii_def isWhiteSpace_def decimal.simps digit_def upt_rec)
  have rng: "(0::int) \<le> 0" "0 < int (length (sheets customised))"
    by (simp_all add: sheets_customised)
  have rng': "(0::int) \<le> 1 \<and> 1 < int (length (sheets customised))"
    by (simp add: sheets_customised)
  from setActiveSheetIndex_resets_view [OF rng, of 1] rng' key pre show ?thesis
    by (simp add: isSelected_def)
qed
section \<open>Visible rows\<close>

text \<open>
  C2. With an active sheet: if the search term is empty after trimming, the Visible Rows
  are the rows of the sheet, in order; otherwise they are the rows, in order, in which
  some cell's normalised form contains the normalised search term as a substring. In
  both cases they are a subsequence of the sheet's rows. The normalised form of a null or
  absent cell is that of the empty string, and that of a string is the string lower-cased
  for the locale and then normalised.
\<close>

theorem visibleRows_filter:
  assumes "activeSheet s = Some sheet"
  shows "(trim (searchTerm s) = [] \<longrightarrow> visibleRows h s = rows sheet)
       \<and> (trim (searchTerm s) \<noteq> [] \<longrightarrow>
            visibleRows h s =
              filter (\<lambda>row. \<exists>c\<in>set row. \<exists>p q.
                        normalizeForSearch h c = p @ normalizeForSearch h (CString (searchTerm s)) @ q)
                (rows sheet))
       \<and> subseq (visibleRows h s) (rows sheet)
       \<and> normalizeForSearch h CNull = normalizeForSearch h (CString [])
       \<and> normalizeForSearch h CUndefined = normalizeForSearch h (CString [])
       \<and> normalizeForSearch h (CString t) = normalizeNFKD h (toLocaleLowerCase h t)
       \<and> normalizeForSearch h (CNumber n) = normalizeNFKD h (toLocaleLowerCase h (numberToString h n))
       \<and> normalizeForSearch h (CBoolean True) = normalizeNFKD h (toLocaleLowerCase h (ascii ''true''))
       \<and> normalizeForSearch h (CBoolean False) = normalizeNFKD h (toLocaleLowerCase h (ascii ''false''))"
proof -
  have sub: "subseq (visibleRows h s) (rows sheet)"
    using assms by (simp add: visibleRows_def Let_def)
  have blank: "trim (searchTerm s) = [] \<longrightarrow> visibleRows h s = rows sheet"
    using assms by (simp add: visibleRows_def)
  have narrowed: "trim (searchTerm s) \<noteq> [] \<longrightarrow>
            visibleRows h s =
              filter (\<lambda>row. \<exists>c\<in>set row. \<exists>p q.
                        normalizeForSearch h c = p @ normalizeForSearch h (CString (searchTerm s)) @ q)
                (rows sheet)"
    using assms by (simp add: visibleRows_def Let_def list_ex_includesJS)
  have norm: "normalizeForSearch h CNull = normalizeForSearch h (CString [])"
    "normalizeForSearch h CUndefined = normalizeForSearch h (CString [])"
    "normalizeForSearch h (CString t) = normalizeNFKD h (toLocaleLowerCase h t)"
    "normalizeForSearch h (CNumber n) = normalizeNFKD h (toLocaleLowerCase h (numberToString h n))"
    "normalizeForSearch h (CBoolean True) = normalizeNFKD h (toLocaleLowerCase h (ascii ''true''))"
    "normalizeForSearch h (CBoolean False) = normalizeNFKD h (toLocaleLowerCase h (ascii ''false''))"
    by (simp_all add: normalizeForSearch_def toStringJS_def)
  from sub blank narrowed norm show ?thesis by blast
qed

theorem visibleRows_filter_witness:
  "activeSheet (setSearchTerm (ascii ''ali'') exampleState) = Some exampleSheet
   \<and> trim (searchTerm (setSearchTerm (ascii ''ali'') exampleState)) \<noteq> []
   \<and> visibleRows exampleHost (setSearchTerm (ascii ''ali'') exampleState)
       = [[CString (ascii ''Ali''), CNumber 5]]
   \<and> trim (searchTerm (setSearchTerm (ascii ''  '') exampleState)) = []
   \<and> visibleRows exampleHost (setSearchTerm (ascii ''  '') exampleState) = rows exampleSheet
   \<and> normalizeForSearch exampleHost (CNumber 7) = ascii ''7''
   \<and> visibleRows exampleHost (setSearchTerm (ascii ''7'') exampleState)
       = [[CString (ascii ''Reza''), CNumber 7]]"
proof -
  have t1: "trim (searchTerm (setSearchTerm (ascii ''ali'') exampleState)) \<noteq> []"
    by (simp add: setSearchTerm_def trim_def ascii_def isWhiteSpace_def)
  have t2: "trim (searchTerm (setSearchTerm (ascii ''  '') exampleState)) = []"
    by (simp add: setSearchTerm_def trim_def ascii_def isWhiteSpace_def)
  have v: "visibleRows exampleHost (setSearchTerm (ascii ''ali'') exampleState)
       = [[CString (ascii ''Ali''), CNumber 5]]"
    by (simp add: visibleRows_def activeSheet_exampleState t1 Let_def)
       (simp add: setSearchTerm_def exampleSheet_def normalizeForSearch_def toStringJS_def
          exampleHost_def ascii_def asciiLower_def decimal.simps digit_def)
  have t3: "trim (searchTerm (setSearchTerm (ascii ''7'') exampleState)) \<noteq> []"
    by (simp add: setSearchTerm_def trim_def ascii_def isWhiteSpace_def)
  have n7: "normalizeNFKD exampleHost (toLocaleLowerCase exampleHost (numberToString exampleHost 7))
      = ascii ''7''"
    by (simp add: exampleHost_def ascii_def asciiLower_def decimal.simps digit_def)
  have v7: "visibleRows exampleHost (setSearchTerm (ascii ''7'') exampleState)
       = [[CString (ascii ''Reza''), CNumber 7]]"
    by (simp add: visibleRows_def activeSheet_exampleState t3 Let_def)
       (simp add: setSearchTerm_def exampleSheet_def normalizeForSearch_def toStringJS_def
          exampleHost_def ascii_def asciiLower_def decimal.simps digit_def)
  show ?thesis
    using visibleRows_filter [OF activeSheet_exampleState, where t = "ascii ''  ''"
        and h = exampleHost and n = 7] t1 t2 v n7 v7
    by (simp add: activeSheet_exampleState)
qed

section \<open>Export\<close>

text \<open>
  C9. For every export file name, the name handed to the workbook writer ends with
  \<open>.xlsx\<close>: a name that ends with \<open>.xlsx\<close> is used as it is, any other name gets
  \<open>.xlsx\<close> appended; and whenever the rows to export are not empty, \<open>handleExport\<close>
  calls the writer once, with that name.
\<close>

theorem downloadWorkbook_filename_suffix:
  "(\<exists>p. wcFilename (downloadWorkbook rs filename) = p @ ascii ''.xlsx'')
   \<and> ((\<exists>p. filename = p @ ascii ''.xlsx'') \<longrightarrow> wcFilename (downloadWorkbook rs filename) = filename)
   \<and> (\<not> (\<exists>p. filename = p @ ascii ''.xlsx'') \<longrightarrow>
        wcFilename (downloadWorkbook rs filename) = filename @ ascii ''.xlsx'')
   \<and> (rs \<noteq> [] \<longrightarrow> snd (handleExport writes rs filename ui) = [downloadWorkbook rs filename])"
  by (auto simp: downloadWorkbook_def endsWith_iff handleExport_def Let_def)

theorem downloadWorkbook_filename_suffix_witness:
  "wcFilename (downloadWorkbook [[CNumber (1::int)]] natijeh) = natijeh @ ascii ''.xlsx''
   \<and> wcFilename (downloadWorkbook [[CNumber (1::int)]] (ascii ''out.xlsx'')) = ascii ''out.xlsx''
   \<and> snd (handleExport (\<lambda>c. True) [[CNumber (1::int)]] natijeh \<lparr>isExporting = False, error = None\<rparr>)
       = [\<lparr>wcRows = [[CNumber 1]], wcSheetName = natijeh, wcFilename = natijeh @ ascii ''.xlsx''\<rparr>]"
proof -
  have a: "\<not> (\<exists>p. natijeh = p @ ascii ''.xlsx'')"
    by (simp add: natijeh_def ascii_def append_eq_Cons_conv)
  have b: "\<exists>p. ascii ''out.xlsx'' = p @ ascii ''.xlsx''"
    by (rule exI [of _ "ascii ''out''"]) (simp add: ascii_def)
  have c: "[[CNumber (1::int)]] \<noteq> []" by simp
  show ?thesis
    using downloadWorkbook_filename_suffix [of "[[CNumber (1::int)]]" natijeh "\<lambda>c. True" "\<lparr>isExporting = False, error = None\<rparr>"]
      downloadWorkbook_filename_suffix [of "[[CNumber (1::int)]]" "ascii ''out.xlsx''" "\<lambda>c. True" "\<lparr>isExporting = False, error = None\<rparr>"]
      a b c
    by (simp add: downloadWorkbook_def)
qed
section \<open>The export matrix\<close>

lemma isSelected_iff: "isSelected m k \<longleftrightarrow> m k = Some True"
  by (simp add: isSelected_def split: option.splits)

lemma selectedColumnIndices_spec:
  "selectedColumnIndices sel (columnKeys hs) = specSelectedIndices sel hs"
  by (simp add: selectedColumnIndices_filter specSelectedIndices_def length_columnKeys isSelected_iff)

lemma specSelectedIndices_bound: "i \<in> set (specSelectedIndices sel hs) \<Longrightarrow> i < length hs"
  by (simp add: specSelectedIndices_def)

lemma specSelectedIndices_ascending: "sorted_wrt (<) (specSelectedIndices sel hs)"
  unfolding specSelectedIndices_def by (rule sorted_wrt_filter) simp

lemma headerCell_spec:
  "i < length hs \<Longrightarrow> headerCell aliases hs (columnKeys hs) i = specHeaderEntry aliases hs i"
  by (simp add: headerCell_def specHeaderEntry_def elem_def length_columnKeys Let_def)

lemma cellOrEmpty_spec: "cellOrEmpty row i = specDataEntry row i"
  by (simp add: cellOrEmpty_def specDataEntry_def elem_def split: cell.splits)

lemma activeHeaders_Some: "activeSheet s = Some sheet \<Longrightarrow> activeHeaders s = headers sheet"
  by (simp add: activeHeaders_def)

lemma rowsForExport_Some:
  assumes "activeSheet s = Some sheet"
  shows "rowsForExport h s =
           (if specSelectedIndices (selectedColumns s) (headers sheet) = [] then []
            else map (\<lambda>i. CString (specHeaderEntry (columnAliases s) (headers sheet) i))
                   (specSelectedIndices (selectedColumns s) (headers sheet))
                 # map (\<lambda>row. map (specDataEntry row) (specSelectedIndices (selectedColumns s) (headers sheet)))
                     (visibleRows h s))"
proof -
  have hd: "map (\<lambda>idx. CString (headerCell (columnAliases s) (headers sheet) (columnKeys (headers sheet)) idx))
              (specSelectedIndices (selectedColumns s) (headers sheet))
          = map (\<lambda>i. CString (specHeaderEntry (columnAliases s) (headers sheet) i))
              (specSelectedIndices (selectedColumns s) (headers sheet))"
    by (rule map_cong [OF refl]) (simp add: headerCell_spec specSelectedIndices_bound)
  have dt: "(\<lambda>row. map (cellOrEmpty row) (specSelectedIndices (selectedColumns s) (headers sheet)))
          = (\<lambda>row. map (specDataEntry row) (specSelectedIndices (selectedColumns s) (headers sheet)))"
    by (rule ext) (simp add: cellOrEmpty_spec)
  show ?thesis
    using assms
    by (simp add: rowsForExport_def activeHeaders_Some Let_def selectedColumnIndices_spec hd dt)
qed

lemma rowsForExport_None: "activeSheet s = None \<Longrightarrow> rowsForExport h s = []"
  by (simp add: rowsForExport_def)

text \<open>Evaluating the examples.\<close>

lemmas string_eval = ascii_def sotoon_def trim_def isWhiteSpace_def decimal.simps digit_def

lemmas store_eval = setWorkbook_def setSearchTerm_def setColumnAlias_def toggleColumn_def
  initialState_def initialSelectedColumns_def isSelected_def at_def Let_def

lemma columnKeys_exampleSheet:
  "columnKeys (headers exampleSheet) = [ascii ''Name::0'', sotoon @ ascii ''-2'']"
  by (simp add: exampleSheet_def columnKeys_def buildColumnKey_def upt_rec string_eval)

lemma activeSheet_narrowed: "activeSheet narrowed = Some exampleSheet"
  by (simp add: narrowed_def activeSheet_def exampleState_def store_eval)

lemma selectedColumns_narrowed:
  "selectedColumns narrowed (ascii ''Name::0'') = Some True"
  "selectedColumns narrowed (sotoon @ ascii ''-2'') = Some False"
  by (simp_all add: narrowed_def exampleState_def exampleSheet_def store_eval buildColumnKey_def
        string_eval)

lemma specSelectedIndices_narrowed:
  "specSelectedIndices (selectedColumns narrowed) (headers exampleSheet) = [0]"
proof -
  have "[0..<length (headers exampleSheet)] = [0, 1]"
    by (simp add: exampleSheet_def upt_rec)
  then show ?thesis
    using selectedColumns_narrowed
    by (simp add: specSelectedIndices_def columnKeys_exampleSheet)
qed

lemma visibleRows_narrowed:
  "visibleRows exampleHost narrowed = [[CString (ascii ''Ali''), CNumber 5]]"
  by (simp add: visibleRows_def activeSheet_narrowed)
     (simp add: narrowed_def setSearchTerm_def exampleSheet_def normalizeForSearch_def
        toStringJS_def exampleHost_def asciiLower_def string_eval)

lemma rowsForExport_headerOnly:
  "rowsForExport exampleHost headerOnly = [[CString (ascii ''Name'')]]"
proof -
  have a: "activeSheet headerOnly = Some headerOnlySheet"
    by (simp add: headerOnly_def activeSheet_def store_eval)
  have k: "columnKeys (headers headerOnlySheet) = [ascii ''Name::0'']"
    by (simp add: headerOnlySheet_def columnKeys_def buildColumnKey_def string_eval)
  have sel: "selectedColumns headerOnly (ascii ''Name::0'') = Some True"
    by (simp add: headerOnly_def headerOnlySheet_def store_eval buildColumnKey_def string_eval)
  have al: "columnAliases headerOnly = Map.empty"
    by (simp add: headerOnly_def store_eval)
  have i: "specSelectedIndices (selectedColumns headerOnly) (headers headerOnlySheet) = [0]"
    using sel by (simp add: specSelectedIndices_def k) (simp add: headerOnlySheet_def)
  have v: "visibleRows exampleHost headerOnly = []"
    by (simp add: visibleRows_def a) (simp add: headerOnlySheet_def)
  have hdr: "specHeaderEntry (columnAliases headerOnly) (headers headerOnlySheet) 0 = ascii ''Name''"
    by (simp add: specHeaderEntry_def al) (simp add: headerOnlySheet_def ascii_def)
  show ?thesis
    by (simp add: rowsForExport_Some [OF a] i v hdr)
qed

text \<open>
  C1. For every state with an active sheet and at least one selected column index, the
  Export Row Matrix is a header row followed by one row per Visible Row. The header entry
  of a selected index is the trimmed alias if that is not empty, else the header text if
  that is not empty, else the placeholder with the 1-based position. A data row is the
  Visible Row at the selected indices, an absent (missing, undefined or null) cell
  replaced by the empty string. The selected indices are the positions whose key maps to
  true, in ascending order, and every row of the matrix has as many entries as there are
  selected indices.
\<close>

theorem rowsForExport_matrix:
  assumes "activeSheet s = Some sheet"
    and "selectedColumnIndices (selectedColumns s) (columnKeys (headers sheet)) \<noteq> []"
  shows "rowsForExport h s =
           map (\<lambda>i. CString (specHeaderEntry (columnAliases s) (headers sheet) i))
             (specSelectedIndices (selectedColumns s) (headers sheet))
           # map (\<lambda>row. map (specDataEntry row) (specSelectedIndices (selectedColumns s) (headers sheet)))
               (visibleRows h s)
       \<and> selectedColumnIndices (selectedColumns s) (columnKeys (headers sheet))
           = specSelectedIndices (selectedColumns s) (headers sheet)
       \<and> sorted_wrt (<) (specSelectedIndices (selectedColumns s) (headers sheet))
       \<and> list_all (\<lambda>r. length r = length (specSelectedIndices (selectedColumns s) (headers sheet)))
           (rowsForExport h s)"
proof -
  have m: "rowsForExport h s =
           map (\<lambda>i. CString (specHeaderEntry (columnAliases s) (headers sheet) i))
             (specSelectedIndices (selectedColumns s) (headers sheet))
           # map (\<lambda>row. map (specDataEntry row) (specSelectedIndices (selectedColumns s) (headers sheet)))
               (visibleRows h s)"
    using assms by (simp add: rowsForExport_Some selectedColumnIndices_spec)
  have l: "list_all (\<lambda>r. length r = length (specSelectedIndices (selectedColumns s) (headers sheet)))
           (rowsForExport h s)"
    unfolding m by (simp add: list_all_iff)
  from m l show ?thesis
    by (simp add: selectedColumnIndices_spec specSelectedIndices_ascending)
qed

theorem rowsForExport_matrix_witness:
  "activeSheet narrowed = Some exampleSheet
   \<and> selectedColumnIndices (selectedColumns narrowed) (columnKeys (headers exampleSheet)) = [0]
   \<and> rowsForExport exampleHost narrowed = [[CString (ascii ''Name'')], [CString (ascii ''Ali'')]]"
proof -
  have sel: "selectedColumnIndices (selectedColumns narrowed) (columnKeys (headers exampleSheet)) = [0]"
    by (simp add: selectedColumnIndices_spec specSelectedIndices_narrowed)
  then have ne: "selectedColumnIndices (selectedColumns narrowed) (columnKeys (headers exampleSheet)) \<noteq> []"
    by simp
  have al: "columnAliases narrowed (ascii ''Name::0'') = Some (ascii ''  '')"
    by (simp add: narrowed_def store_eval)
  have hdr: "specHeaderEntry (columnAliases narrowed) (headers exampleSheet) 0 = ascii ''Name''"
    using al by (simp add: specHeaderEntry_def columnKeys_exampleSheet)
      (simp add: exampleSheet_def string_eval)
  have "rowsForExport exampleHost narrowed = [[CString (ascii ''Name'')], [CString (ascii ''Ali'')]]"
    using rowsForExport_matrix [OF activeSheet_narrowed ne, of exampleHost]
    by (simp add: specSelectedIndices_narrowed visibleRows_narrowed hdr specDataEntry_def)
  with sel show ?thesis
    by (simp add: activeSheet_narrowed)
qed

text \<open>
  C10. For every state with an active sheet and at least one selected column index, the
  Export Row Matrix is not empty and has one row more than there are Visible Rows: the
  header row is there also when the sheet has no rows or the filter leaves none, and
  \<open>handleExport\<close> then calls the writer, with that matrix, and does not report the
  empty-export error. The first row is the header row (an entry for each selected
  index), the rows after it are the projected Visible Rows, and without a Visible Row the
  matrix is the header row alone.
\<close>

theorem rowsForExport_header_always:
  assumes "activeSheet s = Some sheet"
    and "selectedColumnIndices (selectedColumns s) (columnKeys (headers sheet)) \<noteq> []"
  shows "rowsForExport h s \<noteq> []
       \<and> length (rowsForExport h s) = 1 + length (visibleRows h s)
       \<and> (visibleRows h s = [] \<longrightarrow> length (rowsForExport h s) = 1)
       \<and> (rows sheet = [] \<longrightarrow> length (rowsForExport h s) = 1)
       \<and> snd (handleExport writes (rowsForExport h s) filename ui)
           = [downloadWorkbook (rowsForExport h s) filename]
       \<and> error (fst (handleExport writes (rowsForExport h s) filename ui)) \<noteq> Some NothingToExport
       \<and> hd (rowsForExport h s) =
           map (\<lambda>i. CString (specHeaderEntry (columnAliases s) (headers sheet) i))
             (specSelectedIndices (selectedColumns s) (headers sheet))
       \<and> hd (rowsForExport h s) \<noteq> []
       \<and> tl (rowsForExport h s) =
           map (\<lambda>row. map (specDataEntry row) (specSelectedIndices (selectedColumns s) (headers sheet)))
             (visibleRows h s)
       \<and> (visibleRows h s = [] \<longrightarrow>
            rowsForExport h s =
              [map (\<lambda>i. CString (specHeaderEntry (columnAliases s) (headers sheet) i))
                 (specSelectedIndices (selectedColumns s) (headers sheet))])
       \<and> wcRows (downloadWorkbook (rowsForExport h s) filename) = rowsForExport h s"
proof -
  have sel: "specSelectedIndices (selectedColumns s) (headers sheet) \<noteq> []"
    using assms(2) by (simp add: selectedColumnIndices_spec)
  have m: "rowsForExport h s =
      map (\<lambda>i. CString (specHeaderEntry (columnAliases s) (headers sheet) i))
        (specSelectedIndices (selectedColumns s) (headers sheet))
      # map (\<lambda>row. map (specDataEntry row)
        (specSelectedIndices (selectedColumns s) (headers sheet))) (visibleRows h s)"
    using assms(1) sel by (simp add: rowsForExport_Some)
  have first: "hd (rowsForExport h s) =
           map (\<lambda>i. CString (specHeaderEntry (columnAliases s) (headers sheet) i))
             (specSelectedIndices (selectedColumns s) (headers sheet))"
    by (simp add: m)
  have first_ne: "hd (rowsForExport h s) \<noteq> []"
    using sel by (simp add: first)
  have others: "tl (rowsForExport h s) =
           map (\<lambda>row. map (specDataEntry row) (specSelectedIndices (selectedColumns s) (headers sheet)))
             (visibleRows h s)"
    by (simp add: m)
  have alone: "visibleRows h s = [] \<longrightarrow>
            rowsForExport h s =
              [map (\<lambda>i. CString (specHeaderEntry (columnAliases s) (headers sheet) i))
                 (specSelectedIndices (selectedColumns s) (headers sheet))]"
    by (simp add: m)
  have handed: "wcRows (downloadWorkbook (rowsForExport h s) filename) = rowsForExport h s"
    by (simp add: downloadWorkbook_def)
  from m have ne: "rowsForExport h s \<noteq> []" by simp
  have len: "length (rowsForExport h s) = 1 + length (visibleRows h s)"
    by (simp add: m)
  have call: "snd (handleExport writes (rowsForExport h s) filename ui)
           = [downloadWorkbook (rowsForExport h s) filename]"
    using ne by (simp add: handleExport_def Let_def)
  have err: "error (fst (handleExport writes (rowsForExport h s) filename ui)) \<noteq> Some NothingToExport"
    using ne by (simp add: handleExport_def Let_def)
  have none: "rows sheet = [] \<longrightarrow> visibleRows h s = []"
    using assms(1) by (simp add: visibleRows_def)
  from none len have len1: "visibleRows h s = [] \<longrightarrow> length (rowsForExport h s) = 1"
    "rows sheet = [] \<longrightarrow> length (rowsForExport h s) = 1"
    by auto
  from ne len len1 call err first first_ne others alone handed show ?thesis
    by blast
qed

theorem rowsForExport_header_always_witness:
  "activeSheet noMatch = Some exampleSheet
   \<and> selectedColumnIndices (selectedColumns noMatch) (columnKeys (headers exampleSheet)) \<noteq> []
   \<and> visibleRows exampleHost noMatch = []
   \<and> length (rowsForExport exampleHost noMatch) = 1
   \<and> snd (handleExport (\<lambda>c. True) (rowsForExport exampleHost noMatch) natijeh
            \<lparr>isExporting = False, error = None\<rparr>)
       = [downloadWorkbook (rowsForExport exampleHost noMatch) natijeh]
   \<and> rowsForExport exampleHost noMatch = [[CString (ascii ''Name''), CString (sotoon @ ascii '' 2'')]]"
proof -
  have a: "activeSheet noMatch = Some exampleSheet"
    by (simp add: noMatch_def activeSheet_exampleState)
  have k: "selectedColumns noMatch (ascii ''Name::0'') = Some True"
    by (simp add: noMatch_def exampleState_def exampleSheet_def store_eval buildColumnKey_def
          string_eval)
  have "0 \<in> set (specSelectedIndices (selectedColumns noMatch) (headers exampleSheet))"
    using k by (simp add: specSelectedIndices_def columnKeys_exampleSheet)
       (simp add: exampleSheet_def)
  then have ne: "selectedColumnIndices (selectedColumns noMatch) (columnKeys (headers exampleSheet)) \<noteq> []"
    by (auto simp: selectedColumnIndices_spec)
  have v: "visibleRows exampleHost noMatch = []"
    by (simp add: visibleRows_def a)
       (simp add: noMatch_def setSearchTerm_def exampleSheet_def normalizeForSearch_def
          toStringJS_def exampleHost_def asciiLower_def string_eval)
  have sel: "selectedColumns noMatch (sotoon @ ascii ''-2'') = Some True"
    by (simp add: noMatch_def exampleState_def exampleSheet_def store_eval buildColumnKey_def
          string_eval)
  have u: "[0..<length (headers exampleSheet)] = [0, 1]"
    by (simp add: exampleSheet_def upt_rec)
  have i: "specSelectedIndices (selectedColumns noMatch) (headers exampleSheet) = [0, Suc 0]"
    using k sel u by (simp add: specSelectedIndices_def columnKeys_exampleSheet)
  have al: "columnAliases noMatch = Map.empty"
    by (simp add: noMatch_def exampleState_def store_eval)
  have hdr: "specHeaderEntry (columnAliases noMatch) (headers exampleSheet) 0 = ascii ''Name''"
    "specHeaderEntry (columnAliases noMatch) (headers exampleSheet) (Suc 0) = sotoon @ ascii '' 2''"
    by (simp_all add: specHeaderEntry_def al exampleSheet_def string_eval)
  note always = rowsForExport_header_always [OF a ne, of exampleHost "\<lambda>c. True" natijeh
        "\<lparr>isExporting = False, error = None\<rparr>"]
  from always v have "rowsForExport exampleHost noMatch =
      [map (\<lambda>i. CString (specHeaderEntry (columnAliases noMatch) (headers exampleSheet) i))
         (specSelectedIndices (selectedColumns noMatch) (headers exampleSheet))]"
    by blast
  then have all: "rowsForExport exampleHost noMatch
      = [[CString (ascii ''Name''), CString (sotoon @ ascii '' 2'')]]"
    by (simp add: i hdr)
  from always v have rest: "length (rowsForExport exampleHost noMatch) = 1"
    "snd (handleExport (\<lambda>c. True) (rowsForExport exampleHost noMatch) natijeh
            \<lparr>isExporting = False, error = None\<rparr>)
       = [downloadWorkbook (rowsForExport exampleHost noMatch) natijeh]"
    by blast+
  from a ne v rest all show ?thesis
    by blast
qed

text \<open>
  C4, as stated, fails: a sheet with a header and no rows at all, its column selected,
  gives a matrix that holds the header row, and \<open>handleExport\<close> calls the writer and
  reports no error.
\<close>

theorem rowsForExport_no_rows_counterexample:
  "activeSheet headerOnly = Some headerOnlySheet
   \<and> rows headerOnlySheet = []
   \<and> rowsForExport exampleHost headerOnly \<noteq> []
   \<and> handleExport (\<lambda>c. True) (rowsForExport exampleHost headerOnly) natijeh
        \<lparr>isExporting = False, error = None\<rparr>
       = (\<lparr>isExporting = False, error = None\<rparr>,
          [\<lparr>wcRows = [[CString (ascii ''Name'')]], wcSheetName = natijeh,
            wcFilename = natijeh @ ascii ''.xlsx''\<rparr>])"
proof -
  have a: "activeSheet headerOnly = Some headerOnlySheet"
    by (simp add: headerOnly_def activeSheet_def store_eval)
  have r: "rows headerOnlySheet = []"
    by (simp add: headerOnlySheet_def)
  have e: "\<not> endsWith natijeh (ascii ''.xlsx'')"
    by (simp add: endsWith_def natijeh_def ascii_def)
  from a r e show ?thesis
    by (simp add: rowsForExport_headerOnly handleExport_def downloadWorkbook_def Let_def)
qed

text \<open>
  C4, amended. The Export Row Matrix is empty exactly when there is no active sheet or no
  column index is selected; whenever export is triggered with an empty matrix, it is
  aborted before the writer is called, and the error message that asks for a column to be
  selected or data to exist is set.
\<close>

theorem rowsForExport_empty_iff:
  "(rowsForExport h s = [] \<longleftrightarrow>
      (activeSheet s = None
       \<or> selectedColumnIndices (selectedColumns s) (columnKeys (activeHeaders s)) = []))
   \<and> (rowsForExport h s = [] \<longrightarrow>
        handleExport writes (rowsForExport h s) filename ui = (ui\<lparr>error := Some NothingToExport\<rparr>, []))"
proof -
  have "rowsForExport h s = [] \<longleftrightarrow>
      (activeSheet s = None
       \<or> selectedColumnIndices (selectedColumns s) (columnKeys (activeHeaders s)) = [])"
    by (cases "activeSheet s") (simp_all add: rowsForExport_def Let_def)
  then show ?thesis
    by (simp add: handleExport_def)
qed

theorem rowsForExport_empty_iff_witness:
  "activeSheet noneSelected = Some exampleSheet
   \<and> rows exampleSheet \<noteq> []
   \<and> selectedColumnIndices (selectedColumns noneSelected) (columnKeys (activeHeaders noneSelected)) = []
   \<and> rowsForExport exampleHost noneSelected = []
   \<and> handleExport (\<lambda>c. True) (rowsForExport exampleHost noneSelected) natijeh
        \<lparr>isExporting = False, error = None\<rparr>
       = (\<lparr>isExporting = False, error = Some NothingToExport\<rparr>, [])
   \<and> activeSheet (initialState :: int AgentState) = None
   \<and> rowsForExport exampleHost initialState = []"
proof -
  have a: "activeSheet noneSelected = Some exampleSheet"
    by (simp add: noneSelected_def activeSheet_def exampleState_def store_eval)
  have sel: "selectedColumns noneSelected (ascii ''Name::0'') = Some False"
    "selectedColumns noneSelected (sotoon @ ascii ''-2'') = Some False"
    by (simp_all add: noneSelected_def exampleState_def exampleSheet_def store_eval
          buildColumnKey_def string_eval)
  have "[0..<length (headers exampleSheet)] = [0, 1]"
    by (simp add: exampleSheet_def upt_rec)
  then have "specSelectedIndices (selectedColumns noneSelected) (headers exampleSheet) = []"
    using sel by (simp add: specSelectedIndices_def columnKeys_exampleSheet)
  then have i: "selectedColumnIndices (selectedColumns noneSelected) (columnKeys (activeHeaders noneSelected)) = []"
    by (simp only: activeHeaders_Some [OF a] selectedColumnIndices_spec)
  have r: "rows exampleSheet \<noteq> []"
    by (simp add: exampleSheet_def)
  have n: "activeSheet (initialState :: int AgentState) = None"
    by (simp add: activeSheet_def initialState_def at_def)
  show ?thesis
    using rowsForExport_empty_iff [of exampleHost noneSelected "\<lambda>c. True" natijeh
        "\<lparr>isExporting = False, error = None\<rparr>"]
      rowsForExport_empty_iff [of exampleHost initialState "\<lambda>c. True" natijeh
        "\<lparr>isExporting = False, error = None\<rparr>"] a i r n
    by simp
qed

section \<open>The scenario of the specification\<close>

lemma headers_exampleFile:
  "readWorkbookFile h exampleFile =
     [\<lparr>name = ascii ''Sheet1'',
       headers = [ascii ''Name'', sotoon @ ascii '' 2''],
       rows = [[CString (ascii ''Ali''), CNumber 5], [CString (ascii ''Reza''), CNumber 7]]\<rparr>]"
  by (simp add: readWorkbookFile_def exampleFile_def parseSheet_def headerOfCell_def
        toStringJS_def upt_rec string_eval)

lemma loadedExample_fields:
  "sheets (loadedExample h) = readWorkbookFile h exampleFile"
  "activeSheetIndex (loadedExample h) = 0"
  "columnAliases (loadedExample h) = Map.empty"
  "searchTerm (loadedExample h) = []"
  "selectedColumns (loadedExample h) =
     initialSelectedColumns [ascii ''Name'', sotoon @ ascii '' 2'']"
  by (simp_all add: loadedExample_def handleFileChange_def setWorkbook_def headers_exampleFile
        at_def Let_def)

text \<open>
  C8. The sheet whose header row is \<open>Name\<close> and a blank cell and whose rows are
  \<open>["Ali", 5]\<close> and \<open>["Reza", 7]\<close>, in the state after loading it (activating sheet 0
  again changes nothing): the blank header is the placeholder, the locale's word for
  column, a space and \<open>2\<close>; the column keys are \<open>Name::0\<close> and the placeholder followed
  by \<open>::1\<close>; both columns are selected; the Export Row Matrix is the header row of
  \<open>Name\<close> and the placeholder, then the two rows.
\<close>

theorem loaded_scenario:
  "activeSheet (loadedExample h) =
     Some \<lparr>name = ascii ''Sheet1'',
           headers = [ascii ''Name'', sotoon @ ascii '' 2''],
           rows = [[CString (ascii ''Ali''), CNumber 5], [CString (ascii ''Reza''), CNumber 7]]\<rparr>
   \<and> columnKeys (activeHeaders (loadedExample h))
       = [ascii ''Name::0'', (sotoon @ ascii '' 2'') @ ascii ''::1'']
   \<and> endsWith (columnKeys (activeHeaders (loadedExample h)) ! 1) (ascii ''::1'')
   \<and> isSelected (selectedColumns (loadedExample h)) (ascii ''Name::0'')
   \<and> isSelected (selectedColumns (loadedExample h)) ((sotoon @ ascii '' 2'') @ ascii ''::1'')
   \<and> selectedColumnIndices (selectedColumns (loadedExample h))
         (columnKeys (activeHeaders (loadedExample h))) = [0, 1]
   \<and> rowsForExport h (loadedExample h) =
        [[CString (ascii ''Name''), CString (sotoon @ ascii '' 2'')],
         [CString (ascii ''Ali''), CNumber 5],
         [CString (ascii ''Reza''), CNumber 7]]
   \<and> setActiveSheetIndex 0 (loadedExample h) = loadedExample h"
proof -
  let ?sheet = "\<lparr>name = ascii ''Sheet1'',
           headers = [ascii ''Name'', sotoon @ ascii '' 2''],
           rows = [[CString (ascii ''Ali''), CNumber 5], [CString (ascii ''Reza''), CNumber (7::int)]]\<rparr>"
  have a: "activeSheet (loadedExample h) = Some ?sheet"
    by (simp add: activeSheet_def loadedExample_fields headers_exampleFile at_def)
  have hs: "activeHeaders (loadedExample h) = [ascii ''Name'', sotoon @ ascii '' 2'']"
    by (simp add: activeHeaders_Some [OF a])
  have keys: "columnKeys [ascii ''Name'', sotoon @ ascii '' 2'']
       = [ascii ''Name::0'', (sotoon @ ascii '' 2'') @ ascii ''::1'']"
    by (simp add: columnKeys_def buildColumnKey_def upt_rec string_eval)
  have k: "columnKeys (activeHeaders (loadedExample h))
       = [ascii ''Name::0'', (sotoon @ ascii '' 2'') @ ascii ''::1'']"
    by (simp only: hs keys)
  have suffix: "endsWith (columnKeys (activeHeaders (loadedExample h)) ! 1) (ascii ''::1'')"
    by (simp add: k endsWith_def sotoon_def ascii_def)
  have sel: "selectedColumns (loadedExample h) (ascii ''Name::0'') = Some True"
    "selectedColumns (loadedExample h) ((sotoon @ ascii '' 2'') @ ascii ''::1'') = Some True"
    by (simp_all add: loadedExample_fields initialSelectedColumns_lookup keys)
  have both: "isSelected (selectedColumns (loadedExample h)) (ascii ''Name::0'')"
    "isSelected (selectedColumns (loadedExample h)) ((sotoon @ ascii '' 2'') @ ascii ''::1'')"
    using sel by (simp_all add: isSelected_def)
  have i: "specSelectedIndices (selectedColumns (loadedExample h)) [ascii ''Name'', sotoon @ ascii '' 2'']
       = [0, Suc 0]"
    using sel by (simp add: specSelectedIndices_def keys upt_rec)
  have indices: "selectedColumnIndices (selectedColumns (loadedExample h))
         (columnKeys (activeHeaders (loadedExample h))) = [0, 1]"
    using i by (simp add: hs selectedColumnIndices_spec)
  have v: "visibleRows h (loadedExample h) =
      [[CString (ascii ''Ali''), CNumber 5], [CString (ascii ''Reza''), CNumber 7]]"
    by (simp add: visibleRows_def a loadedExample_fields trim_def)
  have hdr: "specHeaderEntry (columnAliases (loadedExample h)) [ascii ''Name'', sotoon @ ascii '' 2''] 0
       = ascii ''Name''"
    "specHeaderEntry (columnAliases (loadedExample h)) [ascii ''Name'', sotoon @ ascii '' 2''] (Suc 0)
       = sotoon @ ascii '' 2''"
    by (simp_all add: specHeaderEntry_def loadedExample_fields sotoon_def ascii_def)
  have m: "rowsForExport h (loadedExample h) =
        [[CString (ascii ''Name''), CString (sotoon @ ascii '' 2'')],
         [CString (ascii ''Ali''), CNumber 5],
         [CString (ascii ''Reza''), CNumber 7]]"
    by (simp add: rowsForExport_Some [OF a] i v hdr specDataEntry_def)
  have idx: "at (sheets (loadedExample h)) 0 = Some ?sheet"
    using a by (simp add: activeSheet_def loadedExample_fields)
  have same: "setActiveSheetIndex 0 (loadedExample h) = loadedExample h"
    by (simp add: setActiveSheetIndex_def idx)
       (simp add: loadedExample_def handleFileChange_def setWorkbook_def headers_exampleFile
          at_def Let_def)
  from a k suffix both indices m same show ?thesis
    by blast
qed

end
